theory Spec2Isabelle
  imports Complex_Main "HOL-Library.Multiset"
begin

section \<open>JavaScript values\<close>

text \<open>
  The handlers of \<^verbatim>\<open>src/app.js\<close> read dynamically typed values out of
  \<^verbatim>\<open>req.body\<close> and test them with \<^verbatim>\<open>!x\<close>, \<^verbatim>\<open><\<close> and \<^verbatim>\<open>>\<close>.
  A JavaScript number is a finite double (carried here by its exact rational value; the
  handlers only compare numbers, they never compute with them), \<^verbatim>\<open>NaN\<close> or an
  infinity. \<^verbatim>\<open>+0\<close> and \<^verbatim>\<open>-0\<close> are both \<open>Finite 0\<close>.
\<close>

datatype jsnum = Finite rat | NaN | PosInfinity | NegInfinity

datatype jsval =
    JUndefined
  | JNull
  | JBool bool
  | JNum jsnum
  | JStr string
  | JDate int
  | JArr "jsval list"
  | JObj "(string \<times> jsval) list"

type_synonym jsobj = "(string \<times> jsval) list"

text \<open>\<^verbatim>\<open>!x\<close> is \<open>\<not> truthy x\<close>: the falsy values are \<^verbatim>\<open>undefined\<close>,
  \<^verbatim>\<open>null\<close>, \<^verbatim>\<open>false\<close>, \<^verbatim>\<open>0\<close>, \<^verbatim>\<open>NaN\<close> and \<^verbatim>\<open>""\<close>.\<close>

fun truthy :: "jsval \<Rightarrow> bool" where
  "truthy JUndefined = False"
| "truthy JNull = False"
| "truthy (JBool b) = b"
| "truthy (JNum (Finite q)) = (q \<noteq> 0)"
| "truthy (JNum NaN) = False"
| "truthy (JNum PosInfinity) = True"
| "truthy (JNum NegInfinity) = True"
| "truthy (JStr s) = (s \<noteq> [])"
| "truthy (JDate t) = True"
| "truthy (JArr xs) = True"
| "truthy (JObj kvs) = True"

text \<open>Property access \<^verbatim>\<open>obj.k\<close> (and the destructuring \<^verbatim>\<open>const { k } = obj\<close>):
  a property that is not there reads as \<^verbatim>\<open>undefined\<close>.\<close>

definition js_get :: "jsobj \<Rightarrow> string \<Rightarrow> jsval" where
  "js_get obj k = (case map_of obj k of None \<Rightarrow> JUndefined | Some v \<Rightarrow> v)"

text \<open>
  The conversions of the ECMAScript runtime that the comparison operators apply to a
  value that is not a number. They are not part of this repository and are taken as
  parameters: \<open>string_to_number\<close> is StringToNumber, \<open>object_to_string\<close> is
  ToPrimitive on an array or a plain object (which answers with a string).
\<close>

record runtime =
  string_to_number :: "string \<Rightarrow> jsnum"
  object_to_string :: "jsval \<Rightarrow> string"

fun toNumber :: "runtime \<Rightarrow> jsval \<Rightarrow> jsnum" where
  "toNumber rt JUndefined = NaN"
| "toNumber rt JNull = Finite 0"
| "toNumber rt (JBool b) = Finite (if b then 1 else 0)"
| "toNumber rt (JNum n) = n"
| "toNumber rt (JStr s) = string_to_number rt s"
| "toNumber rt (JDate t) = Finite (of_int t)"
| "toNumber rt (JArr xs) = string_to_number rt (object_to_string rt (JArr xs))"
| "toNumber rt (JObj kvs) = string_to_number rt (object_to_string rt (JObj kvs))"

text \<open>\<^verbatim>\<open>a < b\<close> on numbers: false as soon as one side is \<^verbatim>\<open>NaN\<close>.\<close>

fun num_lt :: "jsnum \<Rightarrow> jsnum \<Rightarrow> bool" where
  "num_lt NaN b = False"
| "num_lt a NaN = False"
| "num_lt (Finite p) (Finite q) = (p < q)"
| "num_lt (Finite p) PosInfinity = True"
| "num_lt (Finite p) NegInfinity = False"
| "num_lt PosInfinity b = False"
| "num_lt NegInfinity NegInfinity = False"
| "num_lt NegInfinity b = True"

text \<open>\<^verbatim>\<open>v < q\<close> and \<^verbatim>\<open>v > q\<close> against a numeric literal \<open>q\<close>.\<close>

definition js_lt :: "runtime \<Rightarrow> jsval \<Rightarrow> rat \<Rightarrow> bool" where
  "js_lt rt v q = num_lt (toNumber rt v) (Finite q)"

definition js_gt :: "runtime \<Rightarrow> jsval \<Rightarrow> rat \<Rightarrow> bool" where
  "js_gt rt v q = num_lt (Finite q) (toNumber rt v)"

text \<open>\<^verbatim>\<open>s.split("/").pop()\<close>: the pieces of \<open>s\<close> between the separators, and the
  last of them. The split of a string is never the empty array, so \<^verbatim>\<open>pop\<close> always
  finds a piece.\<close>

fun split_on :: "char \<Rightarrow> string \<Rightarrow> string list" where
  "split_on c [] = [[]]"
| "split_on c (x # xs) =
     (if x = c then [] # split_on c xs
      else (case split_on c xs of
              [] \<Rightarrow> [[x]]
            | piece # pieces \<Rightarrow> (x # piece) # pieces))"

definition split_pop :: "string \<Rightarrow> string" where
  "split_pop s = last (split_on (CHR ''/'') s)"

section \<open>HTTP responses\<close>

text \<open>\<^verbatim>\<open>res.status(n).json(obj)\<close>; \<^verbatim>\<open>res.json(obj)\<close> alone answers 200.\<close>

record response =
  status :: nat
  body :: jsobj

definition respond :: "nat \<Rightarrow> jsobj \<Rightarrow> response" where
  "respond n obj = \<lparr>status = n, body = obj\<rparr>"

section \<open>The relational store, the object storage and their failures\<close>

text \<open>
  A row of the \<^verbatim>\<open>Soundboards\<close> table, with the columns of the model definition
  (lines 55-77) and the two timestamps Sequelize adds. Timestamps are milliseconds.
\<close>

record soundboard =
  sb_id :: string
  sb_text :: string
  audioUrl :: string
  fileName :: string
  createdByEmail :: string
  createdAt :: int
  updatedAt :: int

record history_row =
  h_id :: string
  h_title :: string
  h_message :: string
  h_created_at :: int
  h_is_speech_to_text :: bool
  h_email :: string

record feedback_row =
  fb_id :: nat
  fb_comment :: jsval
  fb_rating :: jsval

type_synonym buffer = "nat list"

record gcs_object =
  content :: buffer
  contentType :: string
  cacheControl :: string

datatype db_call =
    SoundboardCreate
  | SoundboardFindAll
  | SoundboardFindByPk
  | SoundboardDestroy
  | HistoryFindByPk
  | FeedbackInsert

datatype ext_call =
    TtsSynthesize jsval
  | GcsSave string
  | GcsExists string
  | GcsDelete string
  | Db db_call

text \<open>
  The state the handlers work on: the tables, the bucket, and the log of the calls made
  to the three external services (so that "no call was made" can be said).
\<close>

record world =
  rows :: "soundboard list"
  histories :: "history_row list"
  feedbacks :: "feedback_row list"
  objects :: "string \<rightharpoonup> gcs_object"
  calls :: "ext_call list"

text \<open>
  What one request meets outside the process: whether each remote call throws (and with
  which message), what the synthesis answers, the identifiers drawn, the clock, the bucket
  name of \<^verbatim>\<open>process.env.GCP_BUCKET_NAME\<close>, and how the database driver writes a value
  that is not a string into a text column. \<open>bucket_bound\<close> says whether the start-up
  of lines 84-97 bound \<^verbatim>\<open>bucket\<close>: an error there is caught and logged and the server
  starts all the same, with \<^verbatim>\<open>bucket\<close> left \<^verbatim>\<open>undefined\<close>. (A \<^verbatim>\<open>ttsClient\<close>
  left unbound makes \<^verbatim>\<open>synthesizeSpeech\<close> throw, which \<open>synthesizeSpeech\<close> answers.)
\<close>

record env =
  synthesizeSpeech :: "jsval \<Rightarrow> string + buffer"
  uuidv4 :: string
  row_uuid :: string
  now :: int
  bucket_name :: string
  bucket_bound :: bool
  save_error :: "string \<Rightarrow> string option"
  exists_error :: "string \<Rightarrow> string option"
  delete_error :: "string \<Rightarrow> string option"
  db_error :: "db_call \<Rightarrow> string option"
  sql_text :: "jsval \<Rightarrow> string"
  js :: runtime

definition logged :: "ext_call \<Rightarrow> world \<Rightarrow> world" where
  "logged c w = w\<lparr>calls := calls w @ [c]\<rparr>"

text \<open>
  \<^verbatim>\<open>bucket.file(name)\<close>: the handle of the object named \<open>name\<close>. The call throws
  a \<^verbatim>\<open>TypeError\<close> when \<^verbatim>\<open>bucket\<close> is \<^verbatim>\<open>undefined\<close>, and the storage library
  throws when the name is empty. No request is made by this call.
\<close>

definition bucket_file :: "env \<Rightarrow> string \<Rightarrow> string + string" where
  "bucket_file e name =
     (if bucket_bound e
      then (if name = [] then Inl ''A file name must be specified.'' else Inr name)
      else Inl ''Cannot read properties of undefined'')"

section \<open>Helper functions (lines 116-149)\<close>

definition generateSpeech :: "env \<Rightarrow> world \<Rightarrow> jsval \<Rightarrow> (string + buffer) \<times> world" where
  "generateSpeech e w text =
     (case synthesizeSpeech e text of
        Inl msg \<Rightarrow> (Inl (''Error generating speech: '' @ msg), logged (TtsSynthesize text) w)
      | Inr audioContent \<Rightarrow> (Inr audioContent, logged (TtsSynthesize text) w))"

text \<open>
  \<^verbatim>\<open>uploadToGCS\<close>: the handle is made before the \<^verbatim>\<open>try\<close>, so what
  \<^verbatim>\<open>bucket.file\<close> throws leaves the function as it is; what \<^verbatim>\<open>file.save\<close> throws
  is wrapped.
\<close>

definition uploadToGCS ::
  "env \<Rightarrow> world \<Rightarrow> buffer \<Rightarrow> string \<Rightarrow> string \<Rightarrow> (string + string) \<times> world" where
  "uploadToGCS e w buf filename ctype =
     (case bucket_file e filename of
        Inl err \<Rightarrow> (Inl err, w)
      | Inr file \<Rightarrow>
          (case save_error e file of
             Some msg \<Rightarrow>
               (Inl (''Error uploading to Google Cloud Storage: '' @ msg),
                logged (GcsSave file) w)
           | None \<Rightarrow>
               (Inr (''https://storage.googleapis.com/'' @ bucket_name e @ ''/'' @ filename),
                logged (GcsSave file)
                  (w\<lparr>objects := (objects w)(file \<mapsto>
                     \<lparr>content = buf, contentType = ctype,
                      cacheControl = ''public, max-age=31536000''\<rparr>)\<rparr>))))"

section \<open>The Soundboard model (lines 55-77) and the calls made on it\<close>

text \<open>
  The attributes \<^verbatim>\<open>sequelize.define("Soundboard", ...)\<close> declares, and the two
  timestamp attributes a model gets by default. There is no \<^verbatim>\<open>title\<close> among them.
\<close>

definition Soundboard_attributes :: "string list" where
  "Soundboard_attributes =
     [''id'', ''text'', ''audioUrl'', ''fileName'', ''createdByEmail'',
      ''createdAt'', ''updatedAt'']"

text \<open>The attributes declared \<^verbatim>\<open>allowNull: false\<close>.\<close>

definition Soundboard_required :: "string list" where
  "Soundboard_required = [''text'', ''audioUrl'', ''fileName'', ''createdByEmail'']"

definition is_nullish :: "jsval \<Rightarrow> bool" where
  "is_nullish v = (v = JUndefined \<or> v = JNull)"

text \<open>The attributes of type \<^verbatim>\<open>STRING\<close> or \<^verbatim>\<open>TEXT\<close>, for which Sequelize refuses
  a value that is an array or an object.\<close>

definition Soundboard_strings :: "string list" where
  "Soundboard_strings = [''text'', ''audioUrl'', ''fileName'', ''createdByEmail'']"

fun is_object :: "jsval \<Rightarrow> bool" where
  "is_object (JArr xs) = True"
| "is_object (JObj kvs) = True"
| "is_object (JDate t) = True"
| "is_object v = False"

definition with_default :: "string \<Rightarrow> jsval \<Rightarrow> jsobj \<Rightarrow> jsobj" where
  "with_default k v obj = (if map_of obj k = None then obj @ [(k, v)] else obj)"

definition put :: "string \<Rightarrow> jsval \<Rightarrow> jsobj \<Rightarrow> jsobj" where
  "put k v obj =
     (if map_of obj k = None then obj @ [(k, v)]
      else map (\<lambda>kv. if fst kv = k then (k, v) else kv) obj)"

text \<open>
  \<^verbatim>\<open>Soundboard.build(values)\<close>: Sequelize keeps the keys that are attributes of the
  model and drops the others, then fills the defaults: a fresh UUID for \<^verbatim>\<open>id\<close>, the
  clock for the timestamps.
\<close>

definition Soundboard_build :: "env \<Rightarrow> jsobj \<Rightarrow> jsobj" where
  "Soundboard_build e vals =
     put ''updatedAt'' (JDate (now e))
       (with_default ''createdAt'' (JDate (now e))
          (with_default ''id'' (JStr (row_uuid e))
             (filter (\<lambda>kv. fst kv \<in> set Soundboard_attributes) vals)))"

text \<open>How the values of an instance are written into the columns of the table.\<close>

definition column :: "env \<Rightarrow> jsval \<Rightarrow> string" where
  "column e v = (case v of JStr s \<Rightarrow> s | _ \<Rightarrow> sql_text e v)"

definition timestamp :: "env \<Rightarrow> jsval \<Rightarrow> int" where
  "timestamp e v = (case v of JDate t \<Rightarrow> t | _ \<Rightarrow> now e)"

definition row_of :: "env \<Rightarrow> jsobj \<Rightarrow> soundboard" where
  "row_of e inst =
     \<lparr>sb_id = column e (js_get inst ''id''),
      sb_text = column e (js_get inst ''text''),
      audioUrl = column e (js_get inst ''audioUrl''),
      fileName = column e (js_get inst ''fileName''),
      createdByEmail = column e (js_get inst ''createdByEmail''),
      createdAt = timestamp e (js_get inst ''createdAt''),
      updatedAt = timestamp e (js_get inst ''updatedAt'')\<rparr>"

text \<open>
  \<^verbatim>\<open>Soundboard.create(values)\<close>: build, validate the non-null attributes and the
  string attributes, insert.
  The insert throws when the database does, and on a primary key that is already there.
  The instance handed back carries the values it was built from.
\<close>

definition Soundboard_create :: "env \<Rightarrow> world \<Rightarrow> jsobj \<Rightarrow> (string + jsobj) \<times> world" where
  "Soundboard_create e w vals =
     (let inst = Soundboard_build e vals in
      if \<exists>k \<in> set Soundboard_required. is_nullish (js_get inst k)
      then (Inl ''notNull Violation'', w)
      else if \<exists>k \<in> set Soundboard_strings. is_object (js_get inst k)
      then (Inl ''string violation'', w)
      else (case db_error e SoundboardCreate of
              Some msg \<Rightarrow> (Inl msg, logged (Db SoundboardCreate) w)
            | None \<Rightarrow>
                if sb_id (row_of e inst) \<in> sb_id ` set (rows w)
                then (Inl ''Validation error'', logged (Db SoundboardCreate) w)
                else (Inr inst,
                      logged (Db SoundboardCreate)
                        (w\<lparr>rows := rows w @ [row_of e inst]\<rparr>))))"

text \<open>
  \<^verbatim>\<open>Soundboard.findAll({ where: { createdByEmail: email }, order: [["createdAt", "DESC"]] })\<close>.
  Rows with the same \<^verbatim>\<open>createdAt\<close> come in the order of the table.
\<close>

definition Soundboard_findAll ::
  "env \<Rightarrow> world \<Rightarrow> string \<Rightarrow> (string + soundboard list) \<times> world" where
  "Soundboard_findAll e w email =
     (case db_error e SoundboardFindAll of
        Some msg \<Rightarrow> (Inl msg, logged (Db SoundboardFindAll) w)
      | None \<Rightarrow>
          (Inr (sort_key (\<lambda>r. - createdAt r)
                  (filter (\<lambda>r. createdByEmail r = email) (rows w))),
           logged (Db SoundboardFindAll) w))"

definition Soundboard_findByPk ::
  "env \<Rightarrow> world \<Rightarrow> string \<Rightarrow> (string + soundboard option) \<times> world" where
  "Soundboard_findByPk e w pk =
     (case db_error e SoundboardFindByPk of
        Some msg \<Rightarrow> (Inl msg, logged (Db SoundboardFindByPk) w)
      | None \<Rightarrow> (Inr (find (\<lambda>r. sb_id r = pk) (rows w)), logged (Db SoundboardFindByPk) w))"

text \<open>\<^verbatim>\<open>soundboard.destroy()\<close>: delete the row with the primary key of the instance.\<close>

definition Soundboard_destroy :: "env \<Rightarrow> world \<Rightarrow> soundboard \<Rightarrow> (string + unit) \<times> world" where
  "Soundboard_destroy e w r =
     (case db_error e SoundboardDestroy of
        Some msg \<Rightarrow> (Inl msg, logged (Db SoundboardDestroy) w)
      | None \<Rightarrow>
          (Inr (),
           logged (Db SoundboardDestroy)
             (w\<lparr>rows := filter (\<lambda>x. sb_id x \<noteq> sb_id r) (rows w)\<rparr>)))"

text \<open>\<^verbatim>\<open>soundboard.toJSON()\<close> of a row read back from the table.\<close>

definition toJSON :: "soundboard \<Rightarrow> jsobj" where
  "toJSON r =
     [(''id'', JStr (sb_id r)),
      (''text'', JStr (sb_text r)),
      (''audioUrl'', JStr (audioUrl r)),
      (''fileName'', JStr (fileName r)),
      (''createdByEmail'', JStr (createdByEmail r)),
      (''createdAt'', JDate (createdAt r)),
      (''updatedAt'', JDate (updatedAt r))]"

section \<open>The bucket: \<^verbatim>\<open>file.exists()\<close> and \<^verbatim>\<open>file.delete()\<close>\<close>

text \<open>Both are called on a handle \<^verbatim>\<open>bucket.file(name)\<close> that was made.\<close>

definition file_exists :: "env \<Rightarrow> world \<Rightarrow> string \<Rightarrow> string + bool" where
  "file_exists e w name =
     (case exists_error e name of
        Some msg \<Rightarrow> Inl msg
      | None \<Rightarrow> Inr (objects w name \<noteq> None))"

definition file_delete :: "env \<Rightarrow> world \<Rightarrow> string \<Rightarrow> (string + unit) \<times> world" where
  "file_delete e w name =
     (case delete_error e name of
        Some msg \<Rightarrow> (Inl msg, logged (GcsDelete name) w)
      | None \<Rightarrow>
          (case objects w name of
             None \<Rightarrow> (Inl (''No such object: '' @ name), logged (GcsDelete name) w)
           | Some obj \<Rightarrow>
               (Inr (), logged (GcsDelete name) (w\<lparr>objects := (objects w)(name := None)\<rparr>))))"

section \<open>The soundboard routes (lines 153-275)\<close>

definition failed :: "string \<Rightarrow> response" where
  "failed msg = respond 500 [(''success'', JBool False), (''error'', JStr msg)]"

text \<open>\<^verbatim>\<open>POST /soundboards\<close>, on the parsed body.\<close>

definition post_soundboards :: "env \<Rightarrow> world \<Rightarrow> jsobj \<Rightarrow> response \<times> world" where
  "post_soundboards e w req_body =
     (let title = js_get req_body ''title'';
          text = js_get req_body ''text'';
          email = js_get req_body ''email''
      in
      if \<not> truthy title \<or> \<not> truthy text \<or> \<not> truthy email
      then (respond 400 [(''error'', JStr ''Title, text, and email are required'')], w)
      else
        (case generateSpeech e w text of
           (Inl err, w1) \<Rightarrow> (failed ''Failed to create soundboard'', w1)
         | (Inr audioBuffer, w1) \<Rightarrow>
             (let fname = uuidv4 e @ ''.mp3'' in
              case uploadToGCS e w1 audioBuffer fname ''audio/mpeg'' of
                (Inl err, w2) \<Rightarrow> (failed ''Failed to create soundboard'', w2)
              | (Inr url, w2) \<Rightarrow>
                  (case Soundboard_create e w2
                          [(''text'', text), (''title'', title), (''audioUrl'', JStr url),
                           (''fileName'', JStr fname), (''createdByEmail'', email)] of
                     (Inl err, w3) \<Rightarrow> (failed ''Failed to create soundboard'', w3)
                   | (Inr inst, w3) \<Rightarrow>
                       (respond 201
                          [(''success'', JBool True),
                           (''message'', JStr ''Soundboard created successfully''),
                           (''data'', JObj inst)],
                        w3)))))"

text \<open>
  The callback of \<^verbatim>\<open>soundboards.map\<close> in \<^verbatim>\<open>GET /soundboards/:email\<close> (lines
  208-226). The object key is the last segment of \<^verbatim>\<open>audioUrl\<close>, and the handle is made
  from it before the \<^verbatim>\<open>try\<close>: what \<^verbatim>\<open>bucket.file\<close> throws rejects the promise of
  this row. Inside the \<^verbatim>\<open>try\<close>, a \<^verbatim>\<open>file.exists()\<close> that throws is caught and gives
  \<^verbatim>\<open>fileExists: false\<close>.
\<close>

definition checked :: "env \<Rightarrow> world \<Rightarrow> string \<Rightarrow> soundboard \<Rightarrow> jsval" where
  "checked e w file r =
     (case file_exists e w file of
        Inr ex \<Rightarrow> JObj (toJSON r @ [(''fileExists'', JBool ex)])
      | Inl err \<Rightarrow> JObj (toJSON r @ [(''fileExists'', JBool False)]))"

definition validated :: "env \<Rightarrow> world \<Rightarrow> soundboard \<Rightarrow> string + jsval" where
  "validated e w r =
     (case bucket_file e (split_pop (audioUrl r)) of
        Inl err \<Rightarrow> Inl err
      | Inr file \<Rightarrow> Inr (checked e w file r))"

text \<open>
  \<^verbatim>\<open>Promise.all\<close>: rejected as soon as one of the promises is, and otherwise fulfilled
  with the results in the order of the array it was given, whatever the order in which
  the checks complete.
\<close>

fun promise_all :: "(string + 'a) list \<Rightarrow> string + 'a list" where
  "promise_all [] = Inr []"
| "promise_all (Inl err # ps) = Inl err"
| "promise_all (Inr v # ps) =
     (case promise_all ps of Inl err \<Rightarrow> Inl err | Inr vs \<Rightarrow> Inr (v # vs))"

text \<open>
  The \<^verbatim>\<open>file.exists()\<close> requests of a listing: every callback runs up to its first
  \<^verbatim>\<open>await\<close> when \<^verbatim>\<open>map\<close> calls it, so the requests are issued in the order of the
  rows, one for each row whose handle was made.
\<close>

fun exists_calls :: "env \<Rightarrow> soundboard list \<Rightarrow> ext_call list" where
  "exists_calls e [] = []"
| "exists_calls e (r # rs) =
     (case bucket_file e (split_pop (audioUrl r)) of
        Inl err \<Rightarrow> exists_calls e rs
      | Inr file \<Rightarrow> GcsExists file # exists_calls e rs)"

text \<open>\<^verbatim>\<open>GET /soundboards/:email\<close> (lines 189-240). A rejected \<^verbatim>\<open>Promise.all\<close> is
  caught by the outer \<^verbatim>\<open>catch\<close>.\<close>

definition get_soundboards :: "env \<Rightarrow> world \<Rightarrow> string \<Rightarrow> response \<times> world" where
  "get_soundboards e w email =
     (case Soundboard_findAll e w email of
        (Inl err, w1) \<Rightarrow> (failed ''Failed to fetch soundboards'', w1)
      | (Inr soundboards, w1) \<Rightarrow>
          if length soundboards = 0
          then (respond 404
                  [(''success'', JBool False),
                   (''message'', JStr ''No soundboards found for this email'')],
                w1)
          else (case promise_all (map (validated e w1) soundboards) of
                  Inl err \<Rightarrow>
                    (failed ''Failed to fetch soundboards'',
                     w1\<lparr>calls := calls w1 @ exists_calls e soundboards\<rparr>)
                | Inr validatedSoundboards \<Rightarrow>
                    (respond 200
                       [(''success'', JBool True),
                        (''message'', JStr ''Soundboards retrieved successfully''),
                        (''data'', JArr validatedSoundboards)],
                     w1\<lparr>calls := calls w1 @ exists_calls e soundboards\<rparr>)))"

text \<open>
  \<^verbatim>\<open>DELETE /soundboards/:id\<close> (lines 242-275). The handle is made before the inner
  \<^verbatim>\<open>try\<close>: what \<^verbatim>\<open>bucket.file\<close> throws goes to the outer \<^verbatim>\<open>catch\<close>. The error
  of \<^verbatim>\<open>file.delete()\<close> is logged and dropped, then the row is destroyed.
\<close>

definition delete_soundboards :: "env \<Rightarrow> world \<Rightarrow> string \<Rightarrow> response \<times> world" where
  "delete_soundboards e w pk =
     (case Soundboard_findByPk e w pk of
        (Inl err, w1) \<Rightarrow> (failed ''Failed to delete soundboard'', w1)
      | (Inr None, w1) \<Rightarrow>
          (respond 404
             [(''success'', JBool False), (''message'', JStr ''Soundboard not found'')],
           w1)
      | (Inr (Some r), w1) \<Rightarrow>
          (case bucket_file e (split_pop (audioUrl r)) of
             Inl err \<Rightarrow> (failed ''Failed to delete soundboard'', w1)
           | Inr file \<Rightarrow>
               (let w2 = snd (file_delete e w1 file) in
                case Soundboard_destroy e w2 r of
                  (Inl err, w3) \<Rightarrow> (failed ''Failed to delete soundboard'', w3)
                | (Inr u, w3) \<Rightarrow>
                    (respond 200
                       [(''success'', JBool True),
                        (''message'', JStr ''Soundboard deleted successfully'')],
                     w3))))"

section \<open>Identifiers, and the error-handling middleware (lines 689-695)\<close>

text \<open>
  The bindings of the module: every \<^verbatim>\<open>const\<close> and \<^verbatim>\<open>let\<close> at the top level of
  \<^verbatim>\<open>app.js\<close>, and the names Node gives a CommonJS module that the file uses. Reading
  an identifier that is bound nowhere throws a \<^verbatim>\<open>ReferenceError\<close> whose message is
  \<^verbatim>\<open><name> is not defined\<close>.
\<close>

definition module_scope :: "string list" where
  "module_scope =
     [''express'', ''Sequelize'', ''DataTypes'', ''textToSpeech'', ''Storage'', ''path'',
      ''uuidv4'', ''multer'', ''cors'', ''app'', ''sequelize'', ''Soundboard'', ''storage'',
      ''ttsClient'', ''bucket'', ''upload'', ''generateSpeech'', ''uploadToGCS'', ''Report'',
      ''PORT'', ''start'']"

definition node_scope :: "string list" where
  "node_scope =
     [''require'', ''module'', ''exports'', ''__dirname'', ''__filename'', ''process'',
      ''console'', ''Date'', ''Error'', ''Promise'', ''Math'', ''parseInt'', ''Object'',
      ''undefined'']"

definition resolve :: "string \<Rightarrow> string + string" where
  "resolve name =
     (if name \<in> set module_scope \<or> name \<in> set node_scope then Inr name
      else Inl (name @ '' is not defined''))"

text \<open>\<^verbatim>\<open>app.use((err, req, res, next) => ...)\<close>, reached through \<^verbatim>\<open>next(error)\<close>.\<close>

definition error_middleware :: "string \<Rightarrow> response" where
  "error_middleware msg = respond 500 [(''success'', JBool False), (''message'', JStr msg)]"

section \<open>\<^verbatim>\<open>GET /history/:id\<close> (lines 368-404)\<close>

text \<open>\<^verbatim>\<open>History.findByPk(id)\<close>, for a model \<^verbatim>\<open>History\<close> over the history table.\<close>

definition History_findByPk ::
  "env \<Rightarrow> world \<Rightarrow> string \<Rightarrow> (string + history_row option) \<times> world" where
  "History_findByPk e w pk =
     (case db_error e HistoryFindByPk of
        Some msg \<Rightarrow> (Inl msg, logged (Db HistoryFindByPk) w)
      | None \<Rightarrow> (Inr (find (\<lambda>h. h_id h = pk) (histories w)), logged (Db HistoryFindByPk) w))"

definition formattedHistory :: "history_row \<Rightarrow> jsobj" where
  "formattedHistory h =
     [(''id'', JStr (h_id h)),
      (''title'', JStr (h_title h)),
      (''message'',
         JArr [JObj [(''text'', JStr (h_message h)),
                     (''created_at'', JDate (h_created_at h)),
                     (''is_speech_to_text'', JBool (h_is_speech_to_text h))]]),
      (''detection_type'',
         JStr (if h_is_speech_to_text h then ''Speech to Text'' else ''Gesture Detection''))]"

text \<open>
  The handler evaluates the identifier \<^verbatim>\<open>History\<close> before it can call
  \<^verbatim>\<open>findByPk\<close> on it; whatever is thrown inside the \<^verbatim>\<open>try\<close> goes to
  \<^verbatim>\<open>next(error)\<close>.
\<close>

definition get_history_by_id :: "env \<Rightarrow> world \<Rightarrow> string \<Rightarrow> response \<times> world" where
  "get_history_by_id e w pk =
     (case resolve ''History'' of
        Inl err \<Rightarrow> (error_middleware err, w)
      | Inr model \<Rightarrow>
          (case History_findByPk e w pk of
             (Inl err, w1) \<Rightarrow> (error_middleware err, w1)
           | (Inr None, w1) \<Rightarrow>
               (respond 404
                  [(''status'', JStr ''error''), (''message'', JStr ''History tidak ditemukan'')],
                w1)
           | (Inr (Some h), w1) \<Rightarrow>
               (respond 200
                  [(''status'', JStr ''success get data''),
                   (''data'', JArr [JObj (formattedHistory h)])],
                w1)))"

section \<open>\<^verbatim>\<open>POST /feedback\<close> (lines 569-609)\<close>

text \<open>
  The raw \<^verbatim>\<open>INSERT INTO feedback (comment, rating)\<close>; the first component of its result
  is the auto-increment id of the new row.
\<close>

definition feedback_insert ::
  "env \<Rightarrow> world \<Rightarrow> jsval \<Rightarrow> jsval \<Rightarrow> (string + nat) \<times> world" where
  "feedback_insert e w comment rating =
     (case db_error e FeedbackInsert of
        Some msg \<Rightarrow> (Inl msg, logged (Db FeedbackInsert) w)
      | None \<Rightarrow>
          (let new_id = Suc (foldr max (map fb_id (feedbacks w)) 0) in
           (Inr new_id,
            logged (Db FeedbackInsert)
              (w\<lparr>feedbacks := feedbacks w @
                   [\<lparr>fb_id = new_id, fb_comment = comment, fb_rating = rating\<rparr>]\<rparr>))))"

definition post_feedback :: "env \<Rightarrow> world \<Rightarrow> jsobj \<Rightarrow> response \<times> world" where
  "post_feedback e w req_body =
     (let comment = js_get req_body ''comment'';
          rating = js_get req_body ''rating''
      in
      if \<not> truthy comment \<or> \<not> truthy rating
      then (respond 400 [(''success'', JBool False), (''message'', JStr ''Rating harus diisi'')], w)
      else if js_lt (js e) rating 1 \<or> js_gt (js e) rating 4
      then (respond 400
              [(''success'', JBool False), (''message'', JStr ''Rating harus antara 1-4'')],
            w)
      else
        (case feedback_insert e w comment rating of
           (Inl err, w1) \<Rightarrow>
             (respond 500 [(''success'', JBool False), (''message'', JStr err)], w1)
         | (Inr result, w1) \<Rightarrow>
             (respond 201
                [(''success'', JBool True),
                 (''data'',
                    JObj [(''id'', JNum (Finite (of_nat result))),
                          (''comment'', comment),
                          (''rating'', rating)])],
              w1)))"

section \<open>A concrete request environment and store\<close>

text \<open>Used to run the handlers on explicit inputs.\<close>

text \<open>
  A runtime for the examples. It reads the strings the examples use as JavaScript does:
  the empty string is 0, a string of decimal digits is that integer, and a string with
  any other character in it (such as \<^verbatim>\<open>"abc"\<close> or \<^verbatim>\<open>"[object Object]"\<close>) is
  \<^verbatim>\<open>NaN\<close>. Signs, fractions, exponents and surrounding blanks are not read and do not
  occur in the examples.
\<close>

definition digit_of :: "char \<Rightarrow> nat option" where
  "digit_of c = map_of (zip ''0123456789'' [0, 1, 2, 3, 4, 5, 6, 7, 8, 9]) c"

fun decimal :: "nat \<Rightarrow> string \<Rightarrow> jsnum" where
  "decimal acc [] = Finite (of_nat acc)"
| "decimal acc (c # cs) =
     (case digit_of c of None \<Rightarrow> NaN | Some d \<Rightarrow> decimal (10 * acc + d) cs)"

definition rt0 :: runtime where
  "rt0 = \<lparr>string_to_number = decimal 0, object_to_string = (\<lambda>v. ''[object Object]'')\<rparr>"

definition env0 :: env where
  "env0 =
     \<lparr>synthesizeSpeech = (\<lambda>t. Inr [73, 68, 51]),
      uuidv4 = ''3f2504e0-4f89-41d3-9a0c-0305e82c3301'',
      row_uuid = ''9b2e1c7a-52d4-4c1e-8f3a-6d0e5a7b1c22'',
      now = 1700000000000,
      bucket_name = ''handlips'',
      bucket_bound = True,
      save_error = (\<lambda>n. None),
      exists_error = (\<lambda>n. None),
      delete_error = (\<lambda>n. None),
      db_error = (\<lambda>c. None),
      sql_text = (\<lambda>v. ''?''),
      js = rt0\<rparr>"

definition row1 :: soundboard where
  "row1 =
     \<lparr>sb_id = ''r1'', sb_text = ''Halo dunia'',
      audioUrl = ''https://storage.googleapis.com/handlips/a1.mp3'',
      fileName = ''a1.mp3'', createdByEmail = ''a@x.com'',
      createdAt = 100, updatedAt = 100\<rparr>"

definition row2 :: soundboard where
  "row2 =
     \<lparr>sb_id = ''r2'', sb_text = ''Selamat pagi'',
      audioUrl = ''https://storage.googleapis.com/handlips/b2.mp3'',
      fileName = ''b2.mp3'', createdByEmail = ''a@x.com'',
      createdAt = 200, updatedAt = 200\<rparr>"

text \<open>A row whose URL ends in a slash, so that its object key is empty.\<close>

definition row3 :: soundboard where
  "row3 =
     \<lparr>sb_id = ''r3'', sb_text = ''Apa kabar'',
      audioUrl = ''https://storage.googleapis.com/handlips/'',
      fileName = [], createdByEmail = ''a@x.com'',
      createdAt = 300, updatedAt = 300\<rparr>"

definition mp3 :: gcs_object where
  "mp3 = \<lparr>content = [73, 68, 51], contentType = ''audio/mpeg'',
          cacheControl = ''public, max-age=31536000''\<rparr>"

definition hist1 :: history_row where
  "hist1 =
     \<lparr>h_id = ''h1'', h_title = ''Halo'', h_message = ''Halo dunia'', h_created_at = 100,
      h_is_speech_to_text = True, h_email = ''a@x.com''\<rparr>"

definition world0 :: world where
  "world0 =
     \<lparr>rows = [row1, row2], histories = [hist1], feedbacks = [],
      objects = [''a1.mp3'' \<mapsto> mp3, ''b2.mp3'' \<mapsto> mp3], calls = []\<rparr>"


definition body0 :: jsobj where
  "body0 = [(''title'', JStr ''Hello''), (''text'', JStr ''Halo dunia''),
            (''email'', JStr ''a@x.com'')]"

section \<open>Reading a response, and the properties stated of the routes\<close>

text \<open>The array under \<^verbatim>\<open>data\<close> in the body of a response.\<close>

definition data_of :: "response \<Rightarrow> jsval list" where
  "data_of res = (case js_get (body res) ''data'' of JArr xs \<Rightarrow> xs | _ \<Rightarrow> [])"

text \<open>The keys of an object value, and an entry of a listing without its flag.\<close>

definition keys_of :: "jsval \<Rightarrow> string list" where
  "keys_of v = (case v of JObj kvs \<Rightarrow> map fst kvs | _ \<Rightarrow> [])"


text \<open>
  What \<^verbatim>\<open>uuidv4()\<close> of the \<^verbatim>\<open>uuid\<close> package answers: groups of 8, 4, 4, 4 and 12
  lower-case hexadecimal digits with hyphens between them.
\<close>

definition hex_digit :: "char \<Rightarrow> bool" where
  "hex_digit c = (c \<in> set ''0123456789abcdef'')"

fun uuid_groups :: "nat list \<Rightarrow> string \<Rightarrow> bool" where
  "uuid_groups [] s = False"
| "uuid_groups [n] s = (length s = n \<and> list_all hex_digit s)"
| "uuid_groups (n # ns) s =
     (list_all hex_digit (take n s) \<and> length (take n s) = n \<and>
      (case drop n s of
         [] \<Rightarrow> False
       | c # rest \<Rightarrow> c = CHR ''-'' \<and> uuid_groups ns rest))"

definition is_uuid :: "string \<Rightarrow> bool" where
  "is_uuid s = uuid_groups [8, 4, 4, 4, 12] s"

text \<open>The object key derived from the URL of a row is the stored file name.\<close>

definition key_matches :: "soundboard \<Rightarrow> bool" where
  "key_matches r = (split_pop (audioUrl r) = fileName r)"

definition consistent :: "soundboard list \<Rightarrow> bool" where
  "consistent rs = list_all key_matches rs"

text \<open>\<^verbatim>\<open>bucket.file\<close> makes a handle for the key of every row of the list.\<close>

definition handles_made :: "env \<Rightarrow> soundboard list \<Rightarrow> bool" where
  "handles_made e rs =
     (bucket_bound e \<and> list_all (\<lambda>r. split_pop (audioUrl r) \<noteq> []) rs)"

text \<open>A number in the closed interval from 1 to 4.\<close>

definition in_1_4 :: "jsnum \<Rightarrow> bool" where
  "in_1_4 r = (case r of Finite q \<Rightarrow> 1 \<le> q \<and> q \<le> 4 | _ \<Rightarrow> False)"

section \<open>Facts about the helpers\<close>

lemma split_on_not_Nil: "split_on c s \<noteq> []"
  by (induction s) (auto split: list.splits)

lemma split_on_no_separator: "c \<notin> set s \<Longrightarrow> split_on c s = [s]"
  by (induction s) auto

lemma split_on_append: "split_on c (s @ c # t) = split_on c s @ split_on c t"
proof (induction s)
  case Nil
  show ?case by simp
next
  case (Cons x s)
  obtain p ps where "split_on c s = p # ps"
    using split_on_not_Nil [of c s] by (cases "split_on c s") auto
  with Cons show ?case by simp
qed

lemma split_pop_append: "CHR ''/'' \<notin> set t \<Longrightarrow> split_pop (s @ CHR ''/'' # t) = t"
  by (simp add: split_pop_def split_on_append split_on_no_separator)

lemma js_get_missing: "map_of b k = None \<Longrightarrow> \<not> truthy (js_get b k)"
  by (simp add: js_get_def)

lemma js_get_empty: "map_of b k = Some (JStr []) \<Longrightarrow> \<not> truthy (js_get b k)"
  by (simp add: js_get_def)

section \<open>Create: validation and synthesis failure\<close>

text \<open>
  C8. When one of \<^verbatim>\<open>title\<close>, \<^verbatim>\<open>text\<close>, \<^verbatim>\<open>email\<close> is falsy in the body (missing and
  the empty string are, by \<open>js_get_missing\<close> and \<open>js_get_empty\<close>), \<^verbatim>\<open>POST /soundboards\<close>
  answers 400 with the validation message and hands the state back as it was: tables,
  bucket and call log are the same, so no synthesis call, no upload and no insert happened.
\<close>

theorem post_soundboards_validation:
  assumes "\<exists>k \<in> {''title'', ''text'', ''email''}. \<not> truthy (js_get b k)"
  shows "post_soundboards e w b =
           (respond 400 [(''error'', JStr ''Title, text, and email are required'')], w)"
  using assms by (auto simp: post_soundboards_def)

theorem post_soundboards_validation_witness:
  "(\<exists>k \<in> {''title'', ''text'', ''email''}.
      \<not> truthy (js_get [(''text'', JStr []), (''email'', JStr ''a@x.com'')] k)) \<and>
   status (fst (post_soundboards env0 world0
                  [(''text'', JStr []), (''email'', JStr ''a@x.com'')])) = 400 \<and>
   snd (post_soundboards env0 world0
          [(''text'', JStr []), (''email'', JStr ''a@x.com'')]) = world0"
proof -
  have h: "\<exists>k \<in> {''title'', ''text'', ''email''}.
      \<not> truthy (js_get [(''text'', JStr []), (''email'', JStr ''a@x.com'')] k)"
    using js_get_missing [of "[(''text'', JStr []), (''email'', JStr ''a@x.com'')]" "''title''"]
    by simp
  show ?thesis
    using h post_soundboards_validation [OF h, of env0 world0] by (simp add: respond_def)
qed

text \<open>
  C1. When the body passes validation and \<^verbatim>\<open>generateSpeech\<close> throws,
  \<^verbatim>\<open>POST /soundboards\<close> answers 500 with the generic failure body, the table has the
  rows it had (so the same number of them), the bucket is untouched, and the only
  external call made is the synthesis: nothing was uploaded and nothing inserted.
\<close>

theorem post_soundboards_synthesis_fails:
  assumes "truthy (js_get b ''title'')" and "truthy (js_get b ''text'')"
    and "truthy (js_get b ''email'')"
    and "fst (generateSpeech e w (js_get b ''text'')) = Inl err"
  shows "fst (post_soundboards e w b) = failed ''Failed to create soundboard'' \<and>
         status (fst (post_soundboards e w b)) = 500 \<and>
         rows (snd (post_soundboards e w b)) = rows w \<and>
         length (rows (snd (post_soundboards e w b))) = length (rows w) \<and>
         objects (snd (post_soundboards e w b)) = objects w \<and>
         calls (snd (post_soundboards e w b)) = calls w @ [TtsSynthesize (js_get b ''text'')]"
  using assms
  by (auto simp: post_soundboards_def generateSpeech_def failed_def respond_def logged_def
           split: sum.splits)

theorem post_soundboards_synthesis_fails_witness:
  "truthy (js_get body0 ''title'') \<and> truthy (js_get body0 ''text'') \<and>
   truthy (js_get body0 ''email'') \<and>
   fst (generateSpeech (env0\<lparr>synthesizeSpeech := (\<lambda>t. Inl ''UNAVAILABLE'')\<rparr>) world0
          (js_get body0 ''text'')) = Inl ''Error generating speech: UNAVAILABLE'' \<and>
   status (fst (post_soundboards (env0\<lparr>synthesizeSpeech := (\<lambda>t. Inl ''UNAVAILABLE'')\<rparr>)
                  world0 body0)) = 500 \<and>
   rows (snd (post_soundboards (env0\<lparr>synthesizeSpeech := (\<lambda>t. Inl ''UNAVAILABLE'')\<rparr>)
                world0 body0)) = [row1, row2]"
proof -
  have t: "truthy (js_get body0 ''title'')" "truthy (js_get body0 ''text'')"
    "truthy (js_get body0 ''email'')"
    by (simp_all add: body0_def js_get_def)
  have g: "fst (generateSpeech (env0\<lparr>synthesizeSpeech := (\<lambda>t. Inl ''UNAVAILABLE'')\<rparr>) world0
             (js_get body0 ''text'')) = Inl ''Error generating speech: UNAVAILABLE''"
    by (simp add: generateSpeech_def)
  show ?thesis
    using t g post_soundboards_synthesis_fails [OF t g]
    by (simp add: world0_def failed_def respond_def)
qed


section \<open>Handles and promises\<close>

lemma bucket_file_made: "bucket_bound e \<Longrightarrow> name \<noteq> [] \<Longrightarrow> bucket_file e name = Inr name"
  by (simp add: bucket_file_def)

lemma bucket_file_Inr: "bucket_file e name = Inr file \<Longrightarrow> file = name \<and> bucket_bound e \<and> name \<noteq> []"
  by (auto simp: bucket_file_def split: if_splits)

lemma handles_made_member:
  "handles_made e rs \<Longrightarrow> r \<in> set rs \<Longrightarrow>
   bucket_file e (split_pop (audioUrl r)) = Inr (split_pop (audioUrl r))"
  by (auto simp: handles_made_def list_all_iff bucket_file_made)

lemma validated_made:
  "handles_made e rs \<Longrightarrow> r \<in> set rs \<Longrightarrow>
   validated e w r = Inr (checked e w (split_pop (audioUrl r)) r)"
  by (simp add: validated_def handles_made_member)

lemma validated_Inr:
  "validated e w r = Inr v \<Longrightarrow> v = checked e w (split_pop (audioUrl r)) r"
  by (auto simp: validated_def dest: bucket_file_Inr split: sum.splits)

lemma validated_logged: "validated e (logged c w) r = validated e w r"
  by (simp add: validated_def checked_def file_exists_def logged_def
           split: option.splits sum.splits)

lemma promise_all_fulfilled:
  "(\<And>x. x \<in> set xs \<Longrightarrow> f x = Inr (g x)) \<Longrightarrow> promise_all (map f xs) = Inr (map g xs)"
  by (induction xs) auto


lemma promise_all_entries: "promise_all ps = Inr vs \<Longrightarrow> ps = map Inr vs"
  by (induction ps arbitrary: vs rule: promise_all.induct) (auto split: sum.splits)

lemma exists_calls_made:
  "handles_made e rs \<Longrightarrow>
   exists_calls e rs = map (\<lambda>r. GcsExists (split_pop (audioUrl r))) rs"
proof (induction rs)
  case Nil
  show ?case by simp
next
  case (Cons r rs)
  have "handles_made e rs"
    using Cons.prems by (simp add: handles_made_def)
  then show ?case
    using Cons.IH handles_made_member [OF Cons.prems, of r] by simp
qed


lemma checked_keys: "''title'' \<notin> set (keys_of (checked e w file r))"
  by (simp add: checked_def keys_of_def toJSON_def split: sum.splits)

section \<open>The listing: what the query finds and what is answered\<close>

lemma findAll_ok:
  "db_error e SoundboardFindAll = None \<Longrightarrow>
   Soundboard_findAll e w email =
     (Inr (sort_key (\<lambda>r. - createdAt r) (filter (\<lambda>r. createdByEmail r = email) (rows w))),
      logged (Db SoundboardFindAll) w)"
  by (simp add: Soundboard_findAll_def)

lemma findAll_cases:
  "fst (Soundboard_findAll e w email) = Inr found \<Longrightarrow>
   db_error e SoundboardFindAll = None \<and>
   found = sort_key (\<lambda>r. - createdAt r) (filter (\<lambda>r. createdByEmail r = email) (rows w))"
  by (auto simp: Soundboard_findAll_def split: option.splits)

lemma findAll_world: "snd (Soundboard_findAll e w email) = logged (Db SoundboardFindAll) w"
  by (simp add: Soundboard_findAll_def split: option.splits)

lemma get_soundboards_found:
  assumes "fst (Soundboard_findAll e w email) = Inr found"
  shows "get_soundboards e w email =
     (if found = []
      then (respond 404
              [(''success'', JBool False),
               (''message'', JStr ''No soundboards found for this email'')],
            logged (Db SoundboardFindAll) w)
      else (case promise_all (map (validated e w) found) of
              Inl err \<Rightarrow>
                (failed ''Failed to fetch soundboards'',
                 (logged (Db SoundboardFindAll) w)
                   \<lparr>calls := calls (logged (Db SoundboardFindAll) w) @ exists_calls e found\<rparr>)
            | Inr vs \<Rightarrow>
                (respond 200
                   [(''success'', JBool True),
                    (''message'', JStr ''Soundboards retrieved successfully''),
                    (''data'', JArr vs)],
                 (logged (Db SoundboardFindAll) w)
                   \<lparr>calls := calls (logged (Db SoundboardFindAll) w) @ exists_calls e found\<rparr>)))"
proof -
  have "Soundboard_findAll e w email = (Inr found, logged (Db SoundboardFindAll) w)"
    using assms findAll_world [of e w email] by (metis prod.collapse)
  then show ?thesis
    by (simp add: get_soundboards_def validated_logged cong: map_cong)
qed

lemma get_soundboards_made:
  assumes "fst (Soundboard_findAll e w email) = Inr found" and "found \<noteq> []"
    and "handles_made e found"
  shows "get_soundboards e w email =
     (respond 200
        [(''success'', JBool True),
         (''message'', JStr ''Soundboards retrieved successfully''),
         (''data'', JArr (map (\<lambda>r. checked e w (split_pop (audioUrl r)) r) found))],
      (logged (Db SoundboardFindAll) w)
        \<lparr>calls := calls (logged (Db SoundboardFindAll) w) @
             map (\<lambda>r. GcsExists (split_pop (audioUrl r))) found\<rparr>)"
proof -
  have "promise_all (map (validated e w) found) =
          Inr (map (\<lambda>r. checked e w (split_pop (audioUrl r)) r) found)"
    using validated_made [OF assms(3)] by (rule promise_all_fulfilled)
  then show ?thesis
    using assms(2) by (simp add: get_soundboards_found [OF assms(1)] exists_calls_made [OF assms(3)])
qed


lemma get_soundboards_data:
  assumes "fst (Soundboard_findAll e w email) = Inr found"
    and "status (fst (get_soundboards e w email)) = 200"
  shows "data_of (fst (get_soundboards e w email)) =
           map (\<lambda>r. checked e w (split_pop (audioUrl r)) r) found"
proof (cases "promise_all (map (validated e w) found)")
  case (Inl err)
  then show ?thesis
    using assms(2)
    by (simp add: get_soundboards_found [OF assms(1)] respond_def failed_def split: if_splits)
next
  case (Inr vs)
  have n: "found \<noteq> []"
    using assms(2) by (auto simp: get_soundboards_found [OF assms(1)] respond_def)
  have "map (validated e w) found = map Inr vs"
    using promise_all_entries [OF Inr] .
  then have "vs = map (\<lambda>r. checked e w (split_pop (audioUrl r)) r) found"
  proof (induction found arbitrary: vs)
    case Nil
    then show ?case by simp
  next
    case (Cons r rs)
    then show ?case by (cases vs) (auto dest: validated_Inr)
  qed
  then show ?thesis
    using n Inr by (simp add: get_soundboards_found [OF assms(1)] respond_def data_of_def js_get_def)
qed

lemma findAll_world0:
  "fst (Soundboard_findAll env0 world0 ''a@x.com'') = Inr [row2, row1]"
  by (simp add: Soundboard_findAll_def env0_def world0_def row1_def row2_def)


lemma keys_world: "split_pop (audioUrl row1) = ''a1.mp3''" "split_pop (audioUrl row2) = ''b2.mp3''"
  "split_pop (audioUrl row3) = []"
  by (simp_all add: row1_def row2_def row3_def split_pop_def)

lemma handles_world0: "handles_made env0 [row2, row1]"
  by (simp add: handles_made_def keys_world env0_def)

text \<open>
  C2. For an owner who has no row in the table, \<^verbatim>\<open>GET /soundboards/:email\<close> never
  answers 200: once the query has answered (with no row), the response is the 404 with the
  message "No soundboards found for this email", not a success carrying an empty list.
  Tables and bucket are left as they were.
\<close>

theorem get_soundboards_no_rows:
  assumes "\<forall>r \<in> set (rows w). createdByEmail r \<noteq> email"
  shows "status (fst (get_soundboards e w email)) \<noteq> 200 \<and>
         (db_error e SoundboardFindAll = None \<longrightarrow>
            fst (get_soundboards e w email) =
              respond 404 [(''success'', JBool False),
                           (''message'', JStr ''No soundboards found for this email'')] \<and>
            status (fst (get_soundboards e w email)) = 404) \<and>
         rows (snd (get_soundboards e w email)) = rows w \<and>
         objects (snd (get_soundboards e w email)) = objects w"
proof -
  have "filter (\<lambda>r. createdByEmail r = email) (rows w) = []"
    using assms by (simp add: filter_empty_conv)
  then show ?thesis
    by (auto simp: get_soundboards_def Soundboard_findAll_def failed_def respond_def logged_def
             split: option.splits)
qed

theorem get_soundboards_no_rows_witness:
  "map createdByEmail (rows world0) = [''a@x.com'', ''a@x.com''] \<and>
   db_error env0 SoundboardFindAll = None \<and>
   status (fst (get_soundboards env0 world0 ''nobody@x.com'')) = 404 \<and>
   rows (snd (get_soundboards env0 world0 ''nobody@x.com'')) = [row1, row2]"
proof -
  have m: "map createdByEmail (rows world0) = [''a@x.com'', ''a@x.com'']"
    by (simp add: world0_def row1_def row2_def)
  have h: "\<forall>r \<in> set (rows world0). createdByEmail r \<noteq> ''nobody@x.com''"
    by (simp add: world0_def row1_def row2_def)
  have d: "db_error env0 SoundboardFindAll = None"
    by (simp add: env0_def)
  have r: "rows world0 = [row1, row2]"
    by (simp add: world0_def)
  show ?thesis
    using m d r get_soundboards_no_rows [OF h, of env0] by (simp add: respond_def)
qed

text \<open>
  What the inner \<^verbatim>\<open>try\<close> of the listing does contain. Take a listing whose query found
  the rows \<open>found\<close>, with a handle made for each of them, and let \<^verbatim>\<open>file.exists()\<close> of
  the object \<open>k\<close> throw. The answer is still 200; the rows whose object is \<open>k\<close> carry
  \<^verbatim>\<open>fileExists: false\<close>, every other row has the entry it has without the throw.
\<close>

lemma exists_throw_contained:
  assumes "fst (Soundboard_findAll e w email) = Inr found" and "found \<noteq> []"
    and "handles_made e found"
  shows "status (fst (get_soundboards (e\<lparr>exists_error := (exists_error e)(k \<mapsto> m)\<rparr>) w email)) = 200 \<and>
         data_of (fst (get_soundboards (e\<lparr>exists_error := (exists_error e)(k \<mapsto> m)\<rparr>) w email)) =
           map (\<lambda>r. if split_pop (audioUrl r) = k
                     then JObj (toJSON r @ [(''fileExists'', JBool False)])
                     else checked e w (split_pop (audioUrl r)) r) found"
proof -
  let ?e = "e\<lparr>exists_error := (exists_error e)(k \<mapsto> m)\<rparr>"
  have q: "fst (Soundboard_findAll ?e w email) = Inr found"
    using assms(1) by (simp add: Soundboard_findAll_def)
  have h: "handles_made ?e found"
    using assms(3) by (simp add: handles_made_def)
  have v: "checked ?e w (split_pop (audioUrl r)) r =
             (if split_pop (audioUrl r) = k
              then JObj (toJSON r @ [(''fileExists'', JBool False)])
              else checked e w (split_pop (audioUrl r)) r)" for r
    by (simp add: checked_def file_exists_def)
  show ?thesis
    by (simp add: get_soundboards_made [OF q assms(2) h] respond_def data_of_def js_get_def v)
qed






section \<open>Delete\<close>

lemma findByPk_ok:
  "db_error e SoundboardFindByPk = None \<Longrightarrow>
   Soundboard_findByPk e w pk =
     (Inr (find (\<lambda>r. sb_id r = pk) (rows w)), logged (Db SoundboardFindByPk) w)"
  by (simp add: Soundboard_findByPk_def)

lemma file_delete_rows: "rows (snd (file_delete e w name)) = rows w"
  by (simp add: file_delete_def logged_def split: option.splits)

lemma file_delete_calls: "calls (snd (file_delete e w n)) = calls w @ [GcsDelete n]"
  by (simp add: file_delete_def logged_def split: option.splits)

lemma destroy_calls: "calls (snd (Soundboard_destroy e w r)) = calls w @ [Db SoundboardDestroy]"
  by (simp add: Soundboard_destroy_def logged_def split: option.splits)

text \<open>
  What the handler does when the lookup answers. For an id that no row has it answers 404
  and the table and the bucket are unchanged. For an id that a row has, once the handle
  of its object is made and when the row delete itself goes through, the answer is 200
  and the table is left without that row, whatever \<^verbatim>\<open>file.delete()\<close> does.
\<close>

lemma delete_soundboards_contract:
  assumes "db_error e SoundboardFindByPk = None"
  shows "(pk \<notin> sb_id ` set (rows w) \<longrightarrow>
            status (fst (delete_soundboards e w pk)) = 404 \<and>
            rows (snd (delete_soundboards e w pk)) = rows w \<and>
            objects (snd (delete_soundboards e w pk)) = objects w) \<and>
         (find (\<lambda>r. sb_id r = pk) (rows w) = Some r \<and>
          bucket_file e (split_pop (audioUrl r)) = Inr file \<and>
          db_error e SoundboardDestroy = None \<longrightarrow>
            status (fst (delete_soundboards e w pk)) = 200 \<and>
            rows (snd (delete_soundboards e w pk)) = filter (\<lambda>x. sb_id x \<noteq> pk) (rows w) \<and>
            pk \<notin> sb_id ` set (rows (snd (delete_soundboards e w pk))))"
proof (intro conjI impI)
  assume n: "pk \<notin> sb_id ` set (rows w)"
  then have "find (\<lambda>r. sb_id r = pk) (rows w) = None"
    by (auto simp: find_None_iff)
  then have "delete_soundboards e w pk =
      (respond 404 [(''success'', JBool False), (''message'', JStr ''Soundboard not found'')],
       logged (Db SoundboardFindByPk) w)"
    by (simp add: delete_soundboards_def findByPk_ok [OF assms])
  then show "status (fst (delete_soundboards e w pk)) = 404"
    and "rows (snd (delete_soundboards e w pk)) = rows w"
    and "objects (snd (delete_soundboards e w pk)) = objects w"
    by (simp_all add: respond_def logged_def)
next
  assume a: "find (\<lambda>r. sb_id r = pk) (rows w) = Some r \<and>
          bucket_file e (split_pop (audioUrl r)) = Inr file \<and>
          db_error e SoundboardDestroy = None"
  then have id: "sb_id r = pk"
    by (auto simp: find_Some_iff)
  have res: "delete_soundboards e w pk =
      (respond 200 [(''success'', JBool True),
                    (''message'', JStr ''Soundboard deleted successfully'')],
       logged (Db SoundboardDestroy)
         ((snd (file_delete e (logged (Db SoundboardFindByPk) w) file))
            \<lparr>rows := filter (\<lambda>x. sb_id x \<noteq> pk)
                      (rows (snd (file_delete e (logged (Db SoundboardFindByPk) w) file)))\<rparr>))"
    using a id
    by (simp add: delete_soundboards_def findByPk_ok [OF assms] Soundboard_destroy_def Let_def)
  show "status (fst (delete_soundboards e w pk)) = 200"
    by (simp add: res respond_def)
  show rw: "rows (snd (delete_soundboards e w pk)) = filter (\<lambda>x. sb_id x \<noteq> pk) (rows w)"
    by (simp add: res logged_def file_delete_rows)
  show "pk \<notin> sb_id ` set (rows (snd (delete_soundboards e w pk)))"
    unfolding rw by auto
qed

lemma delete_soundboards_file_delete_throws:
  "status (fst (delete_soundboards (env0\<lparr>delete_error := (\<lambda>n. Some ''EIO'')\<rparr>) world0 ''r1'')) = 200 \<and>
   rows (snd (delete_soundboards (env0\<lparr>delete_error := (\<lambda>n. Some ''EIO'')\<rparr>) world0 ''r1'')) = [row2]"
proof -
  let ?e = "env0\<lparr>delete_error := (\<lambda>n. Some ''EIO'')\<rparr>"
  have d: "db_error ?e SoundboardFindByPk = None" "db_error ?e SoundboardDestroy = None"
    by (simp_all add: env0_def)
  have f: "find (\<lambda>r. sb_id r = ''r1'') (rows world0) = Some row1"
    by (simp add: world0_def row1_def)
  have b: "bucket_file ?e (split_pop (audioUrl row1)) = Inr ''a1.mp3''"
    by (simp add: keys_world bucket_file_def env0_def)
  have i: "sb_id row1 = ''r1''" "sb_id row2 = ''r2''" "rows world0 = [row1, row2]"
    by (simp_all add: row1_def row2_def world0_def)
  show ?thesis
    using d f b delete_soundboards_contract [OF d(1), of "''r1''" world0 row1 "''a1.mp3''"]
    by (simp add: i)
qed



section \<open>The object key of a row\<close>

lemma hex_digit_not_slash: "hex_digit c \<Longrightarrow> c \<noteq> CHR ''/''"
  by (auto simp: hex_digit_def)

lemma list_all_hex_no_slash: "list_all hex_digit s \<Longrightarrow> CHR ''/'' \<notin> set s"
  by (auto simp: list_all_iff dest: hex_digit_not_slash)

lemma uuid_groups_no_slash: "uuid_groups ns s \<Longrightarrow> CHR ''/'' \<notin> set s"
proof (induction ns s rule: uuid_groups.induct)
  case (1 s)
  then show ?case by simp
next
  case (2 n s)
  then show ?case by (simp add: list_all_hex_no_slash)
next
  case (3 n v va s)
  from "3.prems" obtain c rest where d: "drop n s = c # rest" and c: "c = CHR ''-''"
    and g: "uuid_groups (v # va) rest" and h: "list_all hex_digit (take n s)"
    by (auto split: list.splits)
  have "CHR ''/'' \<notin> set rest" using "3.IH" [OF d] g by simp
  moreover have "CHR ''/'' \<notin> set (take n s)" using h by (rule list_all_hex_no_slash)
  moreover have "set s = set (take n s) \<union> set (drop n s)"
    by (metis append_take_drop_id set_append)
  ultimately show ?case using d c by auto
qed

lemma is_uuid_no_slash:
  assumes "is_uuid s"
  shows "CHR ''/'' \<notin> set (s @ ''.mp3'')"
proof -
  have "CHR ''/'' \<notin> set s"
    using assms uuid_groups_no_slash [of "[8, 4, 4, 4, 12]" s] unfolding is_uuid_def by blast
  then show ?thesis by simp
qed

lemma created_key_matches:
  assumes "is_uuid u"
  shows "split_pop (''https://storage.googleapis.com/'' @ bkt @ ''/'' @ u @ ''.mp3'') = u @ ''.mp3''"
proof -
  have "split_pop ((''https://storage.googleapis.com/'' @ bkt) @ CHR ''/'' # (u @ ''.mp3''))
          = u @ ''.mp3''"
    using is_uuid_no_slash [OF assms] by (rule split_pop_append)
  then show ?thesis by simp
qed

lemma build_handler_values:
  "Soundboard_build e
     [(''text'', t), (''title'', ti), (''audioUrl'', u), (''fileName'', f),
      (''createdByEmail'', em)] =
   [(''text'', t), (''audioUrl'', u), (''fileName'', f), (''createdByEmail'', em),
    (''id'', JStr (row_uuid e)), (''createdAt'', JDate (now e)),
    (''updatedAt'', JDate (now e))]"
  by (simp add: Soundboard_build_def with_default_def put_def Soundboard_attributes_def)

lemma row_of_handler_values:
  "row_of e [(''text'', t), (''audioUrl'', JStr u), (''fileName'', JStr f),
             (''createdByEmail'', em), (''id'', JStr i), (''createdAt'', JDate c),
             (''updatedAt'', JDate d)] =
   \<lparr>sb_id = i, sb_text = column e t, audioUrl = u, fileName = f,
    createdByEmail = column e em, createdAt = c, updatedAt = d\<rparr>"
  by (simp add: row_of_def js_get_def column_def timestamp_def)

lemma post_soundboards_created:
  assumes "status (fst (post_soundboards e w b)) = 201"
  shows "fst (post_soundboards e w b) =
           respond 201
             [(''success'', JBool True),
              (''message'', JStr ''Soundboard created successfully''),
              (''data'', JObj [(''text'', js_get b ''text''),
                  (''audioUrl'', JStr (''https://storage.googleapis.com/'' @ bucket_name e @
                                        ''/'' @ uuidv4 e @ ''.mp3'')),
                  (''fileName'', JStr (uuidv4 e @ ''.mp3'')),
                  (''createdByEmail'', js_get b ''email''),
                  (''id'', JStr (row_uuid e)), (''createdAt'', JDate (now e)),
                  (''updatedAt'', JDate (now e))])] \<and>
         rows (snd (post_soundboards e w b)) = rows w @
           [\<lparr>sb_id = row_uuid e, sb_text = column e (js_get b ''text''),
             audioUrl = ''https://storage.googleapis.com/'' @ bucket_name e @ ''/'' @
                        uuidv4 e @ ''.mp3'',
             fileName = uuidv4 e @ ''.mp3'',
             createdByEmail = column e (js_get b ''email''),
             createdAt = now e, updatedAt = now e\<rparr>] \<and>
         truthy (js_get b ''title'') \<and> bucket_bound e"
  using assms
  by (auto simp: post_soundboards_def generateSpeech_def uploadToGCS_def Soundboard_create_def
        build_handler_values row_of_handler_values failed_def respond_def logged_def Let_def
        bucket_file_def
      split: sum.splits option.splits if_splits)

lemma post_soundboards_rows:
  "rows (snd (post_soundboards e w b)) = rows w \<or>
   rows (snd (post_soundboards e w b)) = rows w @
           [\<lparr>sb_id = row_uuid e, sb_text = column e (js_get b ''text''),
             audioUrl = ''https://storage.googleapis.com/'' @ bucket_name e @ ''/'' @
                        uuidv4 e @ ''.mp3'',
             fileName = uuidv4 e @ ''.mp3'',
             createdByEmail = column e (js_get b ''email''),
             createdAt = now e, updatedAt = now e\<rparr>]"
  by (auto simp: post_soundboards_def generateSpeech_def uploadToGCS_def Soundboard_create_def
        build_handler_values row_of_handler_values failed_def respond_def logged_def Let_def
        bucket_file_def
      split: sum.splits option.splits if_splits)

lemma get_soundboards_rows: "rows (snd (get_soundboards e w email)) = rows w"
  by (auto simp: get_soundboards_def Soundboard_findAll_def logged_def
           split: option.splits sum.splits)

lemma delete_soundboards_rows:
  "rows (snd (delete_soundboards e w pk)) = rows w \<or>
   rows (snd (delete_soundboards e w pk)) = filter (\<lambda>x. sb_id x \<noteq> pk) (rows w)"
  by (auto simp: delete_soundboards_def Soundboard_findByPk_def Soundboard_destroy_def
        file_delete_def logged_def Let_def find_Some_iff
      split: option.splits sum.splits)

lemma consistent_append: "consistent (xs @ [r]) = (consistent xs \<and> key_matches r)"
  by (auto simp: consistent_def)

lemma consistent_filter: "consistent xs \<Longrightarrow> consistent (filter P xs)"
  by (auto simp: consistent_def list_all_iff)

lemma consistent_member: "consistent rs \<Longrightarrow> r \<in> set rs \<Longrightarrow> split_pop (audioUrl r) = fileName r"
  by (auto simp: consistent_def list_all_iff key_matches_def)

lemma get_soundboards_checks:
  assumes "consistent (rows w)" and "fst (Soundboard_findAll e w email) = Inr found"
    and "found \<noteq> []" and "handles_made e found"
  shows "calls (snd (get_soundboards e w email)) =
           calls w @ Db SoundboardFindAll # map (\<lambda>r. GcsExists (fileName r)) found"
proof -
  have "set found \<subseteq> set (rows w)"
    using findAll_cases [OF assms(2)] by auto
  then have "map (\<lambda>r. GcsExists (split_pop (audioUrl r))) found =
             map (\<lambda>r. GcsExists (fileName r)) found"
    using consistent_member [OF assms(1)] by (auto intro!: map_cong)
  then show ?thesis
    by (simp add: get_soundboards_made [OF assms(2,3,4)] logged_def)
qed

lemma delete_soundboards_key:
  assumes "consistent (rows w)" and "db_error e SoundboardFindByPk = None"
    and "find (\<lambda>r. sb_id r = pk) (rows w) = Some r"
    and "bucket_bound e" and "fileName r \<noteq> []"
  shows "GcsDelete (fileName r) \<in> set (calls (snd (delete_soundboards e w pk)))"
proof -
  have "r \<in> set (rows w)"
    using assms(3) by (auto simp: find_Some_iff)
  then have k: "split_pop (audioUrl r) = fileName r"
    using consistent_member [OF assms(1)] by simp
  have "snd (delete_soundboards e w pk) =
          snd (Soundboard_destroy e
                 (snd (file_delete e (logged (Db SoundboardFindByPk) w) (fileName r))) r)"
    using assms(3) k bucket_file_made [OF assms(4,5)]
    by (simp add: delete_soundboards_def findByPk_ok [OF assms(2)] Let_def
             split: prod.splits sum.splits)
  then show ?thesis
    by (simp add: destroy_calls file_delete_calls)
qed

lemma is_uuid_env0: "is_uuid (uuidv4 env0)"
  by (simp add: env0_def is_uuid_def hex_digit_def)

lemma post_world0_status: "status (fst (post_soundboards env0 world0 body0)) = 201"
  by (simp add: post_soundboards_def body0_def js_get_def generateSpeech_def uploadToGCS_def
        Soundboard_create_def build_handler_values row_of_handler_values Soundboard_required_def
        Soundboard_strings_def bucket_file_def
        is_nullish_def env0_def world0_def row1_def row2_def logged_def respond_def Let_def)

lemma consistent_world0: "consistent (rows world0)"
  by (simp add: consistent_def key_matches_def world0_def row1_def row2_def split_pop_def)

text \<open>
  C5. Let \<^verbatim>\<open>uuidv4()\<close> answer a UUID. The row a successful
  \<^verbatim>\<open>POST /soundboards\<close> appends has \<^verbatim>\<open>fileName\<close> \<^verbatim>\<open><uuid>.mp3\<close>, its
  \<^verbatim>\<open>audioUrl\<close> is \<^verbatim>\<open>https://storage.googleapis.com/<bucket>/<fileName>\<close>, the last
  path segment of that URL is the \<^verbatim>\<open>fileName\<close>, and \<^verbatim>\<open>bucket.file\<close> makes a handle
  for it. If the last segment of the URL is the \<^verbatim>\<open>fileName\<close> for every row of the table,
  it still is after a create, a listing and a delete. On such a table, wherever
  \<^verbatim>\<open>bucket.file\<close> makes the handles (the bucket is bound and the names are not empty),
  the objects the listing checks and the object the delete removes, which both handlers
  derive from \<^verbatim>\<open>audioUrl\<close>, are the ones named by \<^verbatim>\<open>fileName\<close>.
\<close>

theorem stored_key_consistent:
  assumes "is_uuid (uuidv4 e)"
  shows "(status (fst (post_soundboards e w b)) = 201 \<longrightarrow>
            (let r = last (rows (snd (post_soundboards e w b))) in
               rows (snd (post_soundboards e w b)) = rows w @ [r] \<and>
               fileName r = uuidv4 e @ ''.mp3'' \<and>
               audioUrl r =
                 ''https://storage.googleapis.com/'' @ bucket_name e @ ''/'' @ fileName r \<and>
               split_pop (audioUrl r) = fileName r \<and>
               bucket_file e (split_pop (audioUrl r)) = Inr (fileName r))) \<and>
         (consistent (rows w) \<longrightarrow>
            consistent (rows (snd (post_soundboards e w b))) \<and>
            consistent (rows (snd (get_soundboards e w email))) \<and>
            consistent (rows (snd (delete_soundboards e w pk))) \<and>
            (\<forall>found. fst (Soundboard_findAll e w email) = Inr found \<and> found \<noteq> [] \<and>
                      handles_made e found \<longrightarrow>
               calls (snd (get_soundboards e w email)) =
                 calls w @ Db SoundboardFindAll # map (\<lambda>r. GcsExists (fileName r)) found) \<and>
            (\<forall>r. db_error e SoundboardFindByPk = None \<and>
                  find (\<lambda>r. sb_id r = pk) (rows w) = Some r \<and>
                  bucket_bound e \<and> fileName r \<noteq> [] \<longrightarrow>
               GcsDelete (fileName r) \<in> set (calls (snd (delete_soundboards e w pk)))))"
proof (intro conjI impI allI)
  assume "status (fst (post_soundboards e w b)) = 201"
  then show "let r = last (rows (snd (post_soundboards e w b))) in
               rows (snd (post_soundboards e w b)) = rows w @ [r] \<and>
               fileName r = uuidv4 e @ ''.mp3'' \<and>
               audioUrl r =
                 ''https://storage.googleapis.com/'' @ bucket_name e @ ''/'' @ fileName r \<and>
               split_pop (audioUrl r) = fileName r \<and>
               bucket_file e (split_pop (audioUrl r)) = Inr (fileName r)"
    using post_soundboards_created [of e w b] created_key_matches [OF assms, of "bucket_name e"]
    by (simp add: Let_def bucket_file_def)
next
  assume c: "consistent (rows w)"
  show "consistent (rows (snd (post_soundboards e w b)))"
    using post_soundboards_rows [of e w b] c created_key_matches [OF assms, of "bucket_name e"]
    by (auto simp: consistent_append key_matches_def)
  show "consistent (rows (snd (get_soundboards e w email)))"
    using c by (simp add: get_soundboards_rows)
  show "consistent (rows (snd (delete_soundboards e w pk)))"
    using delete_soundboards_rows [of e w pk] c by (auto intro: consistent_filter)
  show "calls (snd (get_soundboards e w email)) =
          calls w @ Db SoundboardFindAll # map (\<lambda>r. GcsExists (fileName r)) found"
    if "fst (Soundboard_findAll e w email) = Inr found \<and> found \<noteq> [] \<and> handles_made e found"
    for found
    using that get_soundboards_checks [OF c] by blast
  show "GcsDelete (fileName r) \<in> set (calls (snd (delete_soundboards e w pk)))"
    if "db_error e SoundboardFindByPk = None \<and> find (\<lambda>r. sb_id r = pk) (rows w) = Some r \<and>
        bucket_bound e \<and> fileName r \<noteq> []" for r
    using that delete_soundboards_key [OF c] by blast
qed

theorem stored_key_consistent_witness:
  "is_uuid (uuidv4 env0) \<and>
   status (fst (post_soundboards env0 world0 body0)) = 201 \<and>
   consistent (rows world0) \<and>
   fst (Soundboard_findAll env0 world0 ''a@x.com'') = Inr [row2, row1] \<and>
   handles_made env0 [row2, row1] \<and>
   db_error env0 SoundboardFindByPk = None \<and>
   find (\<lambda>r. sb_id r = ''r1'') (rows world0) = Some row1 \<and>
   bucket_bound env0 \<and> fileName row1 = ''a1.mp3'' \<and>
   fileName (last (rows (snd (post_soundboards env0 world0 body0)))) =
     ''3f2504e0-4f89-41d3-9a0c-0305e82c3301.mp3'' \<and>
   split_pop (audioUrl (last (rows (snd (post_soundboards env0 world0 body0))))) =
     ''3f2504e0-4f89-41d3-9a0c-0305e82c3301.mp3'' \<and>
   consistent (rows (snd (post_soundboards env0 world0 body0))) \<and>
   consistent (rows (snd (delete_soundboards env0 world0 ''r1''))) \<and>
   calls (snd (get_soundboards env0 world0 ''a@x.com'')) =
     [Db SoundboardFindAll, GcsExists ''b2.mp3'', GcsExists ''a1.mp3''] \<and>
   GcsDelete ''a1.mp3'' \<in> set (calls (snd (delete_soundboards env0 world0 ''r1'')))"
proof -
  have d: "db_error env0 SoundboardFindByPk = None" "bucket_bound env0"
    by (simp_all add: env0_def)
  have f: "find (\<lambda>r. sb_id r = ''r1'') (rows world0) = Some row1"
    by (simp add: world0_def row1_def)
  have n: "fileName row1 = ''a1.mp3''" "fileName row2 = ''b2.mp3''" "calls world0 = []"
    "uuidv4 env0 = ''3f2504e0-4f89-41d3-9a0c-0305e82c3301''"
    by (simp_all add: row1_def row2_def world0_def env0_def)
  show ?thesis
    using is_uuid_env0 post_world0_status consistent_world0 findAll_world0 handles_world0 d f
      stored_key_consistent [OF is_uuid_env0, of world0 body0 "''a@x.com''" "''r1''"]
    by (auto simp: n Let_def)
qed

section \<open>The title of a soundboard\<close>

lemma data_of_get_soundboards:
  assumes "x \<in> set (data_of (fst (get_soundboards e w email)))"
  shows "\<exists>w' file r. x = checked e w' file r"
proof (cases "fst (Soundboard_findAll e w email)")
  case (Inl err)
  then have "data_of (fst (get_soundboards e w email)) = []"
    by (cases "Soundboard_findAll e w email")
       (simp add: get_soundboards_def data_of_def js_get_def failed_def respond_def)
  then show ?thesis using assms by simp
next
  case (Inr found)
  show ?thesis
  proof (cases "status (fst (get_soundboards e w email)) = 200")
    case True
    then show ?thesis
      using assms get_soundboards_data [OF Inr True] by auto
  next
    case False
    then have "data_of (fst (get_soundboards e w email)) = []"
      by (auto simp: get_soundboards_found [OF Inr] data_of_def js_get_def failed_def respond_def
               split: sum.splits)
    then show ?thesis using assms by simp
  qed
qed

text \<open>
  C6. \<^verbatim>\<open>title\<close> is not an attribute of the Soundboard model. After a successful
  \<^verbatim>\<open>POST /soundboards\<close> (whose body did carry a title), the instance answered under
  \<^verbatim>\<open>data\<close> has no \<^verbatim>\<open>title\<close> key, the row appended to the table is the one written
  from that instance and has none either, and no entry of any later listing has one.
\<close>

theorem title_not_persisted:
  assumes "status (fst (post_soundboards e w b)) = 201"
  shows "''title'' \<notin> set Soundboard_attributes \<and>
         truthy (js_get b ''title'') \<and>
         (case js_get (body (fst (post_soundboards e w b))) ''data'' of
            JObj inst \<Rightarrow>
              ''title'' \<notin> fst ` set inst \<and>
              rows (snd (post_soundboards e w b)) = rows w @ [row_of e inst]
          | _ \<Rightarrow> False) \<and>
         ''title'' \<notin> fst ` set (toJSON (last (rows (snd (post_soundboards e w b))))) \<and>
         (\<forall>x \<in> set (data_of (fst (get_soundboards e' w' email))). ''title'' \<notin> set (keys_of x))"
proof (intro conjI)
  show "''title'' \<notin> set Soundboard_attributes"
    by (simp add: Soundboard_attributes_def)
  show "truthy (js_get b ''title'')"
    using post_soundboards_created [OF assms] by simp
  show "case js_get (body (fst (post_soundboards e w b))) ''data'' of
            JObj inst \<Rightarrow>
              ''title'' \<notin> fst ` set inst \<and>
              rows (snd (post_soundboards e w b)) = rows w @ [row_of e inst]
          | _ \<Rightarrow> False"
    using post_soundboards_created [OF assms]
    by (simp add: respond_def js_get_def row_of_handler_values)
  show "''title'' \<notin> fst ` set (toJSON (last (rows (snd (post_soundboards e w b)))))"
    by (simp add: toJSON_def)
  show "\<forall>x \<in> set (data_of (fst (get_soundboards e' w' email))). ''title'' \<notin> set (keys_of x)"
    using data_of_get_soundboards checked_keys by blast
qed

theorem title_not_persisted_witness:
  "status (fst (post_soundboards env0 world0 body0)) = 201 \<and>
   js_get body0 ''title'' = JStr ''Hello'' \<and>
   ''title'' \<notin> set (keys_of (js_get (body (fst (post_soundboards env0 world0 body0))) ''data'')) \<and>
   length (data_of (fst (get_soundboards env0
                           (snd (post_soundboards env0 world0 body0)) ''a@x.com''))) = 3 \<and>
   list_all (\<lambda>x. ''title'' \<notin> set (keys_of x))
     (data_of (fst (get_soundboards env0
                      (snd (post_soundboards env0 world0 body0)) ''a@x.com'')))"
proof -
  have t: "js_get body0 ''title'' = JStr ''Hello''"
    by (simp add: body0_def js_get_def)
  have k: "''title'' \<notin> set (keys_of (js_get (body (fst (post_soundboards env0 world0 body0))) ''data''))"
    using title_not_persisted [OF post_world0_status, of env0 world0 "''a@x.com''"]
    by (auto simp: keys_of_def split: jsval.splits)
  have r: "rows (snd (post_soundboards env0 world0 body0)) =
             [row1, row2,
              \<lparr>sb_id = row_uuid env0, sb_text = ''Halo dunia'',
                audioUrl = ''https://storage.googleapis.com/'' @ bucket_name env0 @ ''/'' @
                           uuidv4 env0 @ ''.mp3'',
                fileName = uuidv4 env0 @ ''.mp3'', createdByEmail = ''a@x.com'',
                createdAt = now env0, updatedAt = now env0\<rparr>]"
    using post_soundboards_created [OF post_world0_status]
    by (simp add: world0_def body0_def js_get_def column_def)
  have q: "fst (Soundboard_findAll env0 (snd (post_soundboards env0 world0 body0)) ''a@x.com'') =
             Inr [\<lparr>sb_id = row_uuid env0, sb_text = ''Halo dunia'',
                   audioUrl = ''https://storage.googleapis.com/'' @ bucket_name env0 @ ''/'' @
                              uuidv4 env0 @ ''.mp3'',
                   fileName = uuidv4 env0 @ ''.mp3'', createdByEmail = ''a@x.com'',
                   createdAt = now env0, updatedAt = now env0\<rparr>, row2, row1]"
  proof -
    have d: "db_error env0 SoundboardFindAll = None"
      by (simp add: env0_def)
    have "sort_key (\<lambda>r. - createdAt r)
            (filter (\<lambda>r. createdByEmail r = ''a@x.com'')
               (rows (snd (post_soundboards env0 world0 body0)))) =
          [\<lparr>sb_id = row_uuid env0, sb_text = ''Halo dunia'',
            audioUrl = ''https://storage.googleapis.com/'' @ bucket_name env0 @ ''/'' @
                       uuidv4 env0 @ ''.mp3'',
            fileName = uuidv4 env0 @ ''.mp3'', createdByEmail = ''a@x.com'',
            createdAt = now env0, updatedAt = now env0\<rparr>, row2, row1]"
      unfolding r by (simp add: env0_def row1_def row2_def)
    then show ?thesis
      by (simp add: findAll_ok [OF d])
  qed
  have h: "handles_made env0
             [\<lparr>sb_id = row_uuid env0, sb_text = ''Halo dunia'',
               audioUrl = ''https://storage.googleapis.com/'' @ bucket_name env0 @ ''/'' @
                          uuidv4 env0 @ ''.mp3'',
               fileName = uuidv4 env0 @ ''.mp3'', createdByEmail = ''a@x.com'',
               createdAt = now env0, updatedAt = now env0\<rparr>, row2, row1]"
    using created_key_matches [OF is_uuid_env0, of "bucket_name env0"]
    by (simp add: handles_made_def keys_world) (simp add: env0_def)
  have l: "length (data_of (fst (get_soundboards env0
                           (snd (post_soundboards env0 world0 body0)) ''a@x.com''))) = 3"
    by (simp add: get_soundboards_made [OF q _ h] data_of_def js_get_def respond_def)
  show ?thesis
    using post_world0_status t k l
      title_not_persisted [OF post_world0_status, of env0
        "snd (post_soundboards env0 world0 body0)" "''a@x.com''"]
    by (simp add: list_all_iff)
qed

section \<open>Feedback ratings\<close>

text \<open>
  On ratings that are numbers the two checks of lines 573-585 do what their messages say:
  with a truthy comment the answer is 400 exactly when the number is not in the interval
  from 1 to 4, and then the state is left alone; a number in the interval is inserted and
  answered with 201 (when the insert goes through).
\<close>

lemma post_feedback_rating_range:
  assumes "truthy (js_get b ''comment'')" and "js_get b ''rating'' = JNum r"
  shows "(status (fst (post_feedback e w b)) = 400) = (\<not> in_1_4 r) \<and>
         (\<not> in_1_4 r \<longrightarrow> snd (post_feedback e w b) = w) \<and>
         (in_1_4 r \<and> db_error e FeedbackInsert = None \<longrightarrow>
            status (fst (post_feedback e w b)) = 201 \<and>
            map fb_rating (feedbacks (snd (post_feedback e w b))) =
              map fb_rating (feedbacks w) @ [JNum r])"
  using assms
  by (cases r)
     (auto simp: post_feedback_def feedback_insert_def js_lt_def js_gt_def in_1_4_def
        respond_def logged_def Let_def split: option.splits)

lemma post_feedback_boundaries:
  "status (fst (post_feedback env0 world0
                  [(''comment'', JStr ''ok''), (''rating'', JNum (Finite 0))])) = 400 \<and>
   status (fst (post_feedback env0 world0
                  [(''comment'', JStr ''ok''), (''rating'', JNum (Finite 5))])) = 400 \<and>
   status (fst (post_feedback env0 world0
                  [(''comment'', JStr ''ok''), (''rating'', JNum (Finite 1))])) = 201 \<and>
   status (fst (post_feedback env0 world0
                  [(''comment'', JStr ''ok''), (''rating'', JNum (Finite 4))])) = 201"
proof -
  have c: "truthy (js_get [(''comment'', JStr ''ok''), (''rating'', JNum (Finite q))] ''comment'')"
    for q by (simp add: js_get_def)
  have g: "js_get [(''comment'', JStr ''ok''), (''rating'', JNum (Finite q))] ''rating'' =
             JNum (Finite q)" for q
    by (simp add: js_get_def)
  have d: "db_error env0 FeedbackInsert = None"
    by (simp add: env0_def)
  show ?thesis
    using d post_feedback_rating_range [OF c [of 0] g [of 0], of env0 world0]
      post_feedback_rating_range [OF c [of 5] g [of 5], of env0 world0]
      post_feedback_rating_range [OF c [of 1] g [of 1], of env0 world0]
      post_feedback_rating_range [OF c [of 4] g [of 4], of env0 world0]
    by (simp add: in_1_4_def)
qed

text \<open>A rating sent as a string of digits is compared as the number it reads as.\<close>

lemma post_feedback_digit_strings:
  "status (fst (post_feedback env0 world0
                  [(''comment'', JStr ''ok''), (''rating'', JStr ''5'')])) = 400 \<and>
   status (fst (post_feedback env0 world0
                  [(''comment'', JStr ''ok''), (''rating'', JStr ''4'')])) = 201"
  by (simp add: post_feedback_def feedback_insert_def js_get_def js_lt_def js_gt_def env0_def
        rt0_def digit_of_def respond_def logged_def Let_def)

text \<open>
  C10. A rating that is truthy and that JavaScript converts to \<^verbatim>\<open>NaN\<close> (a string such
  as \<^verbatim>\<open>"abc"\<close>, an object) is in no interval, and yet it passes both checks: \<^verbatim>\<open>!rating\<close>
  is false, and \<^verbatim>\<open>rating < 1\<close> and \<^verbatim>\<open>rating > 4\<close> are both false on \<^verbatim>\<open>NaN\<close>. The
  handler does not answer 400: it issues the insert with that rating, and answers 201
  when the insert goes through.
\<close>

theorem post_feedback_nan_rating:
  assumes "truthy (js_get b ''comment'')" and "truthy (js_get b ''rating'')"
    and "toNumber (js e) (js_get b ''rating'') = NaN"
  shows "status (fst (post_feedback e w b)) \<noteq> 400 \<and>
         calls (snd (post_feedback e w b)) = calls w @ [Db FeedbackInsert] \<and>
         (db_error e FeedbackInsert = None \<longrightarrow>
            status (fst (post_feedback e w b)) = 201 \<and>
            map fb_rating (feedbacks (snd (post_feedback e w b))) =
              map fb_rating (feedbacks w) @ [js_get b ''rating''])"
  using assms
  by (auto simp: post_feedback_def feedback_insert_def js_lt_def js_gt_def
        respond_def logged_def Let_def split: option.splits)

theorem post_feedback_nan_rating_witness:
  "truthy (JStr ''ok'') \<and> truthy (JStr ''abc'') \<and>
   toNumber (js env0) (JStr ''abc'') = NaN \<and> \<not> in_1_4 (toNumber (js env0) (JStr ''abc'')) \<and>
   db_error env0 FeedbackInsert = None \<and>
   status (fst (post_feedback env0 world0
                  [(''comment'', JStr ''ok''), (''rating'', JStr ''abc'')])) = 201 \<and>
   map fb_rating (feedbacks (snd (post_feedback env0 world0
                  [(''comment'', JStr ''ok''), (''rating'', JStr ''abc'')]))) = [JStr ''abc'']"
proof -
  have c: "truthy (js_get [(''comment'', JStr ''ok''), (''rating'', JStr ''abc'')] ''comment'')"
    and r: "truthy (js_get [(''comment'', JStr ''ok''), (''rating'', JStr ''abc'')] ''rating'')"
    and g: "js_get [(''comment'', JStr ''ok''), (''rating'', JStr ''abc'')] ''rating'' = JStr ''abc''"
    by (simp_all add: js_get_def)
  have n: "toNumber (js env0) (JStr ''abc'') = NaN"
    by (simp add: env0_def rt0_def digit_of_def)
  have n': "toNumber (js env0)
              (js_get [(''comment'', JStr ''ok''), (''rating'', JStr ''abc'')] ''rating'') = NaN"
    using n g by simp
  have d: "db_error env0 FeedbackInsert = None" "feedbacks world0 = []"
    by (simp_all add: env0_def world0_def)
  show ?thesis
    using n d post_feedback_nan_rating [OF c r n', of world0]
    by (simp add: g in_1_4_def)
qed

section \<open>One history record\<close>

lemma get_history_by_id_500:
  "get_history_by_id e w pk =
     (respond 500 [(''success'', JBool False), (''message'', JStr ''History is not defined'')], w)"
  by (simp add: get_history_by_id_def resolve_def module_scope_def node_scope_def
        error_middleware_def)

text \<open>
  C7. \<^verbatim>\<open>GET /history/:id\<close> on a table that has the row asked for: the identifier
  \<^verbatim>\<open>History\<close> is bound nowhere in the module, so the handler throws before any lookup
  and the error-handling middleware answers 500 with "History is not defined"; by
  \<open>get_history_by_id_500\<close> it does so for every id, found or not.
\<close>

theorem get_history_by_id_existing_row:
  "find (\<lambda>h. h_id h = ''h1'') (histories world0) = Some hist1 \<and>
   db_error env0 HistoryFindByPk = None \<and>
   get_history_by_id env0 world0 ''h1'' =
     (respond 500 [(''success'', JBool False), (''message'', JStr ''History is not defined'')],
      world0)"
  by (simp add: world0_def hist1_def env0_def get_history_by_id_def resolve_def
        module_scope_def node_scope_def error_middleware_def)

end
